theory Spec2Isabelle
  imports Main
begin

section \<open>Python library functions that PGKeeper.py calls\<close>

text \<open>
  PGKeeper.py is one module with two commands, \<^verbatim>\<open>backup\<close> and \<^verbatim>\<open>restore\<close>. Both build an
  argument list for an external PostgreSQL tool, copy the process environment, put the
  password into the copy under \<^verbatim>\<open>PGPASSWORD\<close> and run the tool with \<^verbatim>\<open>subprocess.run\<close>.
  This section models the few library functions the two commands use; the commands
  themselves follow in the next sections, line by line.
\<close>

subsection \<open>\<^verbatim>\<open>str(port)\<close>: the decimal numeral of a Python int\<close>

definition digit_char :: "nat \<Rightarrow> char" where
  "digit_char d = ''0123456789'' ! d"

fun str_nat :: "nat \<Rightarrow> string" where
  "str_nat n = (if n < 10 then [digit_char n] else str_nat (n div 10) @ [digit_char (n mod 10)])"

declare str_nat.simps [simp del]

text \<open>\<^verbatim>\<open>--port\<close> has \<^verbatim>\<open>type=int\<close>, so a negative number is accepted and printed with its sign.\<close>

definition str_int :: "int \<Rightarrow> string" where
  "str_int i = (if i < 0 then CHR ''-'' # str_nat (nat (- i)) else str_nat (nat i))"

subsection \<open>\<^verbatim>\<open>str.startswith\<close>, \<^verbatim>\<open>str.endswith\<close>, \<^verbatim>\<open>str.join\<close>\<close>

definition startswith :: "string \<Rightarrow> string \<Rightarrow> bool" where
  "startswith s pre = (take (length pre) s = pre)"

definition endswith :: "string \<Rightarrow> string \<Rightarrow> bool" where
  "endswith s suf = (length suf \<le> length s \<and> drop (length s - length suf) s = suf)"

fun str_join :: "string \<Rightarrow> string list \<Rightarrow> string" where
  "str_join sep [] = []"
| "str_join sep [x] = x"
| "str_join sep (x # y # ys) = x @ sep @ str_join sep (y # ys)"

subsection \<open>\<^verbatim>\<open>os.path.join\<close> with two components (posixpath)\<close>

text \<open>
  \<^verbatim>\<open>
  def join(a, *p):
      path = a
      for b in p:
          if b.startswith(sep):                   path = b
          elif not path or path.endswith(sep):    path += b
          else:                                   path += sep + b
      return path
  \<close>
\<close>

definition os_path_join :: "string \<Rightarrow> string \<Rightarrow> string" where
  "os_path_join a b =
     (if startswith b ''/'' then b
      else if a = [] \<or> endswith a ''/'' then a @ b
      else a @ ''/'' @ b)"

section \<open>The backup command's path and argument list\<close>

text \<open>
  Lines 63 to 70. The time stamp is \<^verbatim>\<open>datetime.now().strftime("%Y%m%d_%H%M%S")\<close>; the clock is
  outside the program, so the formatted string is a parameter.
  \<^verbatim>\<open>
  if dump_format == 'd':
      backup_path = os.path.join(backup_dir, f"backup_{dbname}_{timestamp}")
  else:
      file_ext = ".dump" if dump_format == 'c' else ".tar" if dump_format == 't' else ".sql"
      backup_path = os.path.join(backup_dir, f"backup_{dbname}_{timestamp}{file_ext}")
  \<close>
\<close>

definition file_ext :: "string \<Rightarrow> string" where
  "file_ext dump_format =
     (if dump_format = ''c'' then ''.dump'' else if dump_format = ''t'' then ''.tar'' else ''.sql'')"

definition backup_path :: "string \<Rightarrow> string \<Rightarrow> string \<Rightarrow> string \<Rightarrow> string" where
  "backup_path backup_dir dbname timestamp dump_format =
     (if dump_format = ''d''
      then os_path_join backup_dir (''backup_'' @ dbname @ ''_'' @ timestamp)
      else os_path_join backup_dir
             (''backup_'' @ dbname @ ''_'' @ timestamp @ file_ext dump_format))"

text \<open>
  Lines 83 to 106: the list \<^verbatim>\<open>cmd\<close>. Its head is the program, the rest the arguments.
\<close>

definition backup_cmd ::
  "string \<Rightarrow> int \<Rightarrow> string \<Rightarrow> string \<Rightarrow> string \<Rightarrow> string \<Rightarrow> string list" where
  "backup_cmd host port username dump_format path dbname =
     (if dump_format = ''d''
      then [''pg_dump'', ''-h'', host, ''-p'', str_int port, ''-U'', username,
            ''-F'', dump_format, ''-v'', ''-f'', path, dbname]
      else [''pg_dump'', ''-h'', host, ''-p'', str_int port, ''-U'', username,
            ''-F'', dump_format, ''-b'', ''-v'', ''-f'', path, dbname])"

section \<open>The world outside the program\<close>

text \<open>
  What the commands read and change: the file system (\<^verbatim>\<open>os.path.isdir\<close>, \<^verbatim>\<open>os.makedirs\<close>),
  the dictionary \<^verbatim>\<open>os.environ\<close> and the dictionaries made from it, and the external tool
  started by \<^verbatim>\<open>subprocess.run\<close>. Why the operating system refuses to create a directory
  (\<open>mkdir_error\<close>) and how a started tool ends (\<open>process\<close>) are not decided by the
  program: they are fields of the world, and every theorem holds for all of them.

  The file system is a tree without symbolic links. An entry is named by the list of
  directory names that leads to it from the root \<^verbatim>\<open>/\<close>; the root is the empty list and
  is always a directory. A path string is resolved to an entry component by component,
  from the root when it starts with \<^verbatim>\<open>/\<close> and from the working directory otherwise.
\<close>

datatype kind = File | Dir

type_synonym node = "string list"

type_synonym environment = "string \<rightharpoonup> string"

datatype proc_result =
    Exited int          \<comment> \<open>the tool was started and ended with this return code\<close>
  | LaunchError string  \<comment> \<open>the tool could not be started: \<^verbatim>\<open>subprocess.run\<close> raises OSError\<close>

record world =
  environ :: environment
  dicts :: "environment list"
  cwd :: node
  fs :: "node \<rightharpoonup> kind"
  mkdir_error :: "node \<Rightarrow> string option"
  process :: "string list \<Rightarrow> environment \<Rightarrow> proc_result"

subsection \<open>Dictionaries are objects: references, \<^verbatim>\<open>copy()\<close> and item assignment\<close>

text \<open>
  \<^verbatim>\<open>env = os.environ.copy()\<close> makes a new dictionary and \<^verbatim>\<open>env["PGPASSWORD"] = password\<close>
  changes the object \<^verbatim>\<open>env\<close> refers to. A reference is either \<^verbatim>\<open>os.environ\<close> itself or
  the index of a dictionary allocated by \<^verbatim>\<open>copy()\<close>.
\<close>

datatype ref = Environ | Dict nat

definition deref :: "world \<Rightarrow> ref \<Rightarrow> environment" where
  "deref w r = (case r of Environ \<Rightarrow> environ w | Dict i \<Rightarrow> dicts w ! i)"

definition dict_copy :: "world \<Rightarrow> ref \<Rightarrow> world \<times> ref" where
  "dict_copy w r = (w\<lparr>dicts := dicts w @ [deref w r]\<rparr>, Dict (length (dicts w)))"

definition dict_setitem :: "world \<Rightarrow> ref \<Rightarrow> string \<Rightarrow> string \<Rightarrow> world" where
  "dict_setitem w r k v =
     (case r of
        Environ \<Rightarrow> w\<lparr>environ := (environ w)(k \<mapsto> v)\<rparr>
      | Dict i \<Rightarrow> w\<lparr>dicts := (dicts w)[i := (dicts w ! i)(k \<mapsto> v)]\<rparr>)"

subsection \<open>Exceptions\<close>

datatype exn =
    CalledProcessError int "string list"  \<comment> \<open>return code and command\<close>
  | FileExistsError string                \<comment> \<open>the path names an entry that is there\<close>
  | NoSuchPath string
      \<comment> \<open>\<^verbatim>\<open>FileNotFoundError\<close> or \<^verbatim>\<open>NotADirectoryError\<close>: the path is empty, or a
          directory on the way is missing or is not a directory\<close>
  | OSError string                        \<comment> \<open>any other refusal, with its text\<close>

subsection \<open>Resolving a path\<close>

text \<open>The components of a path: \<^verbatim>\<open>p.split('/')\<close>.\<close>

primrec split_slash :: "string \<Rightarrow> string list" where
  "split_slash [] = [[]]"
| "split_slash (c # cs) =
     (if c = CHR ''/'' then [] # split_slash cs
      else (case split_slash cs of [] \<Rightarrow> [[c]] | x # xs \<Rightarrow> (c # x) # xs))"

definition node_kind :: "world \<Rightarrow> node \<Rightarrow> kind option" where
  "node_kind w n = (if n = [] then Some Dir else fs w n)"

text \<open>
  One step per component: the entry walked from must be a directory; an empty component
  (two slashes in a row, or a slash at the end) and \<^verbatim>\<open>.\<close> stay there, \<^verbatim>\<open>..\<close> goes to the
  parent (the root is its own parent), a name goes to the entry of that name, which need
  not be there when it is the last one.
\<close>

primrec walk :: "world \<Rightarrow> string list \<Rightarrow> node \<Rightarrow> node option" where
  "walk w [] cur = Some cur"
| "walk w (c # cs) cur =
     (if node_kind w cur = Some Dir
      then walk w cs (if c = [] \<or> c = ''.'' then cur
                      else if c = ''..'' then butlast cur
                      else cur @ [c])
      else None)"

definition start :: "world \<Rightarrow> string \<Rightarrow> node" where
  "start w p = (if startswith p ''/'' then [] else cwd w)"

definition resolve :: "world \<Rightarrow> string \<Rightarrow> node option" where
  "resolve w p = (if p = [] then None else walk w (split_slash p) (start w p))"

definition stat :: "world \<Rightarrow> string \<Rightarrow> kind option" where
  "stat w p = (case resolve w p of None \<Rightarrow> None | Some n \<Rightarrow> node_kind w n)"

subsection \<open>\<^verbatim>\<open>os.path.exists\<close>, \<^verbatim>\<open>os.path.isdir\<close>, \<^verbatim>\<open>os.path.split\<close>\<close>

definition os_path_exists :: "world \<Rightarrow> string \<Rightarrow> bool" where
  "os_path_exists w p = (stat w p \<noteq> None)"

definition os_path_isdir :: "world \<Rightarrow> string \<Rightarrow> bool" where
  "os_path_isdir w p = (stat w p = Some Dir)"

text \<open>
  \<^verbatim>\<open>
  def split(p):
      i = p.rfind(sep) + 1
      head, tail = p[:i], p[i:]
      if head and head != sep*len(head):
          head = head.rstrip(sep)
      return head, tail
  \<close>
\<close>

definition os_path_split :: "string \<Rightarrow> string \<times> string" where
  "os_path_split p =
     (let head = rev (dropWhile (\<lambda>c. c \<noteq> CHR ''/'') (rev p));
          tail = rev (takeWhile (\<lambda>c. c \<noteq> CHR ''/'') (rev p))
      in if head \<noteq> [] \<and> head \<noteq> replicate (length head) CHR ''/''
         then (rev (dropWhile (\<lambda>c. c = CHR ''/'') (rev head)), tail)
         else (head, tail))"

subsection \<open>The system call \<^verbatim>\<open>mkdir\<close>\<close>

text \<open>
  Slashes at the end are ignored. The directory above must be there; the entry itself must
  not be, and \<^verbatim>\<open>.\<close> and \<^verbatim>\<open>..\<close> as last component name a directory that is there. The
  operating system may still refuse (permissions, a read-only disk): \<open>mkdir_error\<close>.
\<close>

definition os_mkdir :: "world \<Rightarrow> string \<Rightarrow> exn + world" where
  "os_mkdir w p =
     (let cs = rev (dropWhile (\<lambda>c. c = []) (rev (split_slash p))) in
      if p = [] then Inl (NoSuchPath p)
      else if cs = [] then Inl (FileExistsError p)
      else (case walk w (butlast cs) (start w p) of
              None \<Rightarrow> Inl (NoSuchPath p)
            | Some par \<Rightarrow>
                if node_kind w par \<noteq> Some Dir then Inl (NoSuchPath p)
                else if last cs = ''.'' \<or> last cs = ''..'' then Inl (FileExistsError p)
                else (case node_kind w (par @ [last cs]) of
                        Some k \<Rightarrow> Inl (FileExistsError p)
                      | None \<Rightarrow>
                          (case mkdir_error w (par @ [last cs]) of
                             Some e \<Rightarrow> Inl (OSError e)
                           | None \<Rightarrow> Inr (w\<lparr>fs := (fs w)(par @ [last cs] \<mapsto> Dir)\<rparr>)))))"

subsection \<open>\<^verbatim>\<open>os.makedirs\<close>\<close>

text \<open>
  \<^verbatim>\<open>
  def makedirs(name, mode=0o777, exist_ok=False):
      head, tail = path.split(name)
      if not tail:
          head, tail = path.split(head)
      if head and tail and not path.exists(head):
          try:
              makedirs(head, exist_ok=exist_ok)
          except FileExistsError:
              pass
          cdir = curdir
          if tail == cdir:
              return
      try:
          mkdir(name, mode)
      except OSError:
          if not exist_ok or not path.isdir(name):
              raise
  \<close>
  The result is the exception raised, if any, and the world as it is then: directories
  made before a failure stay.
\<close>

definition makedirs_parts :: "string \<Rightarrow> string \<times> string" where
  "makedirs_parts name =
     (case os_path_split name of
        (head, tail) \<Rightarrow> if tail = [] then os_path_split head else (head, tail))"

text \<open>The last four lines: \<^verbatim>\<open>raise\<close> unless \<^verbatim>\<open>exist_ok\<close> is set and the path is a directory.\<close>

definition mkdir_unless_there :: "world \<Rightarrow> string \<Rightarrow> bool \<Rightarrow> exn option \<times> world" where
  "mkdir_unless_there w name exist_ok =
     (case os_mkdir w name of
        Inr w' \<Rightarrow> (None, w')
      | Inl e \<Rightarrow> if exist_ok \<and> os_path_isdir w name then (None, w) else (Some e, w))"

text \<open>\<^verbatim>\<open>except FileExistsError: pass\<close> lets this exception of the inner call through.\<close>

definition passed :: "exn option \<Rightarrow> bool" where
  "passed r = (case r of None \<Rightarrow> True | Some (FileExistsError p) \<Rightarrow> True | Some e \<Rightarrow> False)"

function os_makedirs :: "world \<Rightarrow> string \<Rightarrow> bool \<Rightarrow> exn option \<times> world" where
  "os_makedirs w name exist_ok =
     (if fst (makedirs_parts name) \<noteq> [] \<and> snd (makedirs_parts name) \<noteq> []
         \<and> \<not> os_path_exists w (fst (makedirs_parts name))
      then (case os_makedirs w (fst (makedirs_parts name)) exist_ok of
              (r, w1) \<Rightarrow>
                if passed r
                then (if snd (makedirs_parts name) = ''.'' then (None, w1)
                      else mkdir_unless_there w1 name exist_ok)
                else (r, w1))
      else mkdir_unless_there w name exist_ok)"
  by pat_completeness auto

termination os_makedirs
proof (relation "measure (\<lambda>(w, name, exist_ok). length name)")
  show "wf (measure (\<lambda>(w, name, exist_ok). length name))" by simp
next
  fix w :: world and name :: string and exist_ok :: bool
  assume "fst (makedirs_parts name) \<noteq> [] \<and> snd (makedirs_parts name) \<noteq> []
      \<and> \<not> os_path_exists w (fst (makedirs_parts name))"
  then have tail: "snd (makedirs_parts name) \<noteq> []" by simp
  have split_length: "length (fst (os_path_split p)) + length (snd (os_path_split p)) \<le> length p"
    for p
  proof -
    let ?d = "dropWhile (\<lambda>c. c \<noteq> CHR ''/'') (rev p)"
    let ?t = "takeWhile (\<lambda>c. c \<noteq> CHR ''/'') (rev p)"
    have "length ?t + length ?d = length (?t @ ?d)" by (simp only: length_append)
    also have "\<dots> = length (rev p)" by (simp only: takeWhile_dropWhile_id)
    finally have 1: "length ?d + length ?t = length p"
      by (simp only: length_rev add.commute)
    have 2: "length (dropWhile (\<lambda>c. c = CHR ''/'') (rev (rev ?d))) \<le> length ?d"
      using length_dropWhile_le [of "\<lambda>c. c = CHR ''/''" ?d] by simp
    show ?thesis using 1 2 by (simp add: os_path_split_def Let_def)
  qed
  obtain h t where s: "os_path_split name = (h, t)" by (cases "os_path_split name")
  have l: "length h + length t \<le> length name"
    using split_length [of name] by (simp add: s)
  have "length (fst (makedirs_parts name)) < length name"
  proof (cases "t = []")
    case True
    then have p: "makedirs_parts name = os_path_split h"
      by (simp add: makedirs_parts_def s)
    have 1: "length (fst (os_path_split h)) + length (snd (os_path_split h)) \<le> length h"
      by (rule split_length)
    have 2: "1 \<le> length (snd (os_path_split h))"
      using tail unfolding p by (cases "snd (os_path_split h)") simp_all
    show ?thesis unfolding p using 1 2 l by linarith
  next
    case False
    then have p: "makedirs_parts name = (h, t)" by (simp add: makedirs_parts_def s)
    have 2: "1 \<le> length t" using False by (cases t) simp_all
    show ?thesis unfolding p using 2 l by simp
  qed
  then show "((w, fst (makedirs_parts name), exist_ok), w, name, exist_ok)
      \<in> measure (\<lambda>(w, name, exist_ok). length name)"
    by simp
qed

declare os_makedirs.simps [simp del]

subsection \<open>The entry that a path without \<^verbatim>\<open>..\<close> names\<close>


subsection \<open>What a command does, in order\<close>

datatype level = DEBUG | INFO | ERROR

datatype message =
    Text string         \<comment> \<open>a finished string\<close>
  | TextExn string exn  \<comment> \<open>\<^verbatim>\<open>f"...: {e}"\<close> for an exception \<^verbatim>\<open>e\<close>\<close>

datatype event =
    Makedirs string bool               \<comment> \<open>\<^verbatim>\<open>os.makedirs(path, exist_ok=...)\<close>\<close>
  | Log level message                  \<comment> \<open>\<^verbatim>\<open>logging.debug/info/error\<close>\<close>
  | Echo message                       \<comment> \<open>\<^verbatim>\<open>click.echo\<close>\<close>
  | Spawn "string list" environment    \<comment> \<open>\<^verbatim>\<open>subprocess.run(cmd, env=env, check=True)\<close>\<close>

datatype outcome =
    Success                     \<comment> \<open>the tool returned 0: lines 111-112 and 175-176\<close>
  | Failure exn                 \<comment> \<open>\<^verbatim>\<open>except subprocess.CalledProcessError\<close>: lines 113-115 and 177-179\<close>
  | DirectoryCreationError exn  \<comment> \<open>\<^verbatim>\<open>except Exception\<close> around \<^verbatim>\<open>os.makedirs\<close>: lines 75-77\<close>
  | Raised exn                  \<comment> \<open>an exception no handler matches: it leaves the command\<close>

record result =
  after :: world
  trace :: "event list"
  outcome :: outcome

primrec spawned :: "event list \<Rightarrow> (string list \<times> environment) list" where
  "spawned [] = []"
| "spawned (e # es) =
     (case e of Spawn cmd env \<Rightarrow> (cmd, env) # spawned es | _ \<Rightarrow> spawned es)"


section \<open>The backup command\<close>

text \<open>
  Lines 55 to 115, in the order of the source: the path, \<^verbatim>\<open>os.makedirs\<close> inside
  \<^verbatim>\<open>try/except Exception\<close> (the handler logs and returns), the environment, the command, the
  debug line, and \<^verbatim>\<open>subprocess.run(cmd, env=env, check=True)\<close> inside
  \<^verbatim>\<open>try/except subprocess.CalledProcessError\<close>. With \<^verbatim>\<open>check=True\<close> the call returns when the
  return code is 0 and raises \<^verbatim>\<open>CalledProcessError\<close> when it is not; an \<^verbatim>\<open>OSError\<close> raised
  because the tool could not be started is not matched by the handler.
\<close>

definition backup ::
  "world \<Rightarrow> string \<Rightarrow> string \<Rightarrow> int \<Rightarrow> string \<Rightarrow> string \<Rightarrow> string \<Rightarrow> string \<Rightarrow> string \<Rightarrow> result" where
  "backup w timestamp host port username dbname backup_dir dump_format password =
     (let path = backup_path backup_dir dbname timestamp dump_format in
      case os_makedirs w backup_dir True of
        (Some e, w1) \<Rightarrow>
          \<lparr>after = w1,
           trace = [Makedirs backup_dir True,
                    Log ERROR (TextExn ''Failed to create backup directory: '' e)],
           outcome = DirectoryCreationError e\<rparr>
      | (None, w1) \<Rightarrow>
          (let (w2, env) = dict_copy w1 Environ;
               w3 = dict_setitem w2 env ''PGPASSWORD'' password;
               cmd = backup_cmd host port username dump_format path dbname;
               pre = [Makedirs backup_dir True,
                      Log INFO (Text (''Backup directory ensured: '' @ backup_dir)),
                      Log DEBUG (Text (''Running command: '' @ str_join '' '' cmd)),
                      Spawn cmd (deref w3 env)];
               finished = ''Backup completed successfully. Backup file/directory: '' @ path
           in case process w3 cmd (deref w3 env) of
                Exited rc \<Rightarrow>
                  if rc = 0
                  then \<lparr>after = w3,
                        trace = pre @ [Log INFO (Text finished), Echo (Text finished)],
                        outcome = Success\<rparr>
                  else \<lparr>after = w3,
                        trace = pre @
                          [Log ERROR (TextExn ''Backup failed: '' (CalledProcessError rc cmd)),
                           Echo (TextExn ''Backup failed: '' (CalledProcessError rc cmd))],
                        outcome = Failure (CalledProcessError rc cmd)\<rparr>
              | LaunchError e \<Rightarrow>
                  \<lparr>after = w3, trace = pre, outcome = Raised (OSError e)\<rparr>))"

section \<open>The restore command\<close>

text \<open>Lines 138 to 170: the list \<^verbatim>\<open>cmd\<close>.\<close>

definition restore_cmd ::
  "world \<Rightarrow> string \<Rightarrow> int \<Rightarrow> string \<Rightarrow> string \<Rightarrow> string \<Rightarrow> string list" where
  "restore_cmd w host port username dbname backup_file =
     (if os_path_isdir w backup_file
      then [''pg_restore'', ''-h'', host, ''-p'', str_int port, ''-U'', username,
            ''-d'', dbname, ''-v'', backup_file]
      else if endswith backup_file ''.sql''
      then [''psql'', ''-h'', host, ''-p'', str_int port, ''-U'', username,
            ''-d'', dbname, ''-f'', backup_file]
      else [''pg_restore'', ''-h'', host, ''-p'', str_int port, ''-U'', username,
            ''-d'', dbname, ''-v'', backup_file])"

text \<open>Lines 127 to 179: the environment first, then the command, the debug line and the run.\<close>

definition restore ::
  "world \<Rightarrow> string \<Rightarrow> int \<Rightarrow> string \<Rightarrow> string \<Rightarrow> string \<Rightarrow> string \<Rightarrow> result" where
  "restore w host port username dbname backup_file password =
     (let (w1, env) = dict_copy w Environ;
          w2 = dict_setitem w1 env ''PGPASSWORD'' password;
          cmd = restore_cmd w2 host port username dbname backup_file;
          pre = [Log DEBUG (Text (''Running command: '' @ str_join '' '' cmd)),
                 Spawn cmd (deref w2 env)]
      in case process w2 cmd (deref w2 env) of
           Exited rc \<Rightarrow>
             if rc = 0
             then \<lparr>after = w2,
                   trace = pre @ [Log INFO (Text ''Restore completed successfully.''),
                                  Echo (Text ''Restore completed successfully.'')],
                   outcome = Success\<rparr>
             else \<lparr>after = w2,
                   trace = pre @
                     [Log ERROR (TextExn ''Restore failed: '' (CalledProcessError rc cmd)),
                      Echo (TextExn ''Restore failed: '' (CalledProcessError rc cmd))],
                   outcome = Failure (CalledProcessError rc cmd)\<rparr>
         | LaunchError e \<Rightarrow>
             \<lparr>after = w2, trace = pre, outcome = Raised (OSError e)\<rparr>)"

section \<open>Worlds for the examples\<close>

text \<open>
  The working directory \<^verbatim>\<open>/work\<close> and nothing else; every directory can be made; the tool
  starts and returns the given code.
\<close>

definition fresh_world :: "int \<Rightarrow> world" where
  "fresh_world rc =
     \<lparr>environ = [''PATH'' \<mapsto> ''/usr/bin''], dicts = [], cwd = [''work''],
      fs = [[''work''] \<mapsto> Dir],
      mkdir_error = (\<lambda>n. None), process = (\<lambda>cmd env. Exited rc)\<rparr>"

text \<open>The same, but no tool can be started (it is not installed).\<close>

definition toolless_world :: world where
  "toolless_world =
     \<lparr>environ = [''PATH'' \<mapsto> ''/usr/bin''], dicts = [], cwd = [''work''],
      fs = [[''work''] \<mapsto> Dir],
      mkdir_error = (\<lambda>n. None),
      process = (\<lambda>cmd env. LaunchError ''[Errno 2] No such file or directory'')\<rparr>"

text \<open>\<^verbatim>\<open>/work/backups\<close> is there already, as a directory or as a plain file.\<close>

definition rooted_world :: "kind \<Rightarrow> world" where
  "rooted_world k =
     \<lparr>environ = [''PATH'' \<mapsto> ''/usr/bin''], dicts = [], cwd = [''work''],
      fs = [[''work''] \<mapsto> Dir, [''work'', ''backups''] \<mapsto> k],
      mkdir_error = (\<lambda>n. None), process = (\<lambda>cmd env. Exited 0)\<rparr>"


section \<open>Facts about the library functions\<close>

lemma str_int_5432: "str_int 5432 = ''5432''"
  by (simp add: str_int_def str_nat.simps digit_char_def)

lemma digit_char_in: "d < 10 \<Longrightarrow> digit_char d \<in> set ''0123456789''"
  unfolding digit_char_def by (rule nth_mem) simp

lemma str_nat_chars: "set (str_nat n) \<subseteq> set ''0123456789''"
proof (induction n rule: str_nat.induct)
  case (1 n)
  show ?case
  proof (cases "n < 10")
    case True
    then show ?thesis using digit_char_in [of n] by (subst str_nat.simps) simp
  next
    case False
    have "n mod 10 < 10" by simp
    then have "digit_char (n mod 10) \<in> set ''0123456789''" by (rule digit_char_in)
    with False "1.IH" show ?thesis by (subst str_nat.simps) simp
  qed
qed

lemma str_int_chars: "set (str_int i) \<subseteq> set ''-0123456789''"
proof (cases "i < 0")
  case True
  have "set (str_nat (nat (- i))) \<subseteq> set ''0123456789''" by (rule str_nat_chars)
  then have "insert CHR ''-'' (set (str_nat (nat (- i)))) \<subseteq> insert CHR ''-'' (set ''0123456789'')"
    by (rule insert_mono)
  with True show ?thesis by (simp only: str_int_def if_True list.set(2))
next
  case False
  have "set (str_nat (nat i)) \<subseteq> set ''0123456789''" by (rule str_nat_chars)
  also have "\<dots> \<subseteq> set (CHR ''-'' # ''0123456789'')" by (rule set_subset_Cons)
  finally show ?thesis using False by (simp only: str_int_def if_False)
qed

text \<open>
  A port numeral is never the option \<^verbatim>\<open>-b\<close>.
\<close>

lemma str_int_not_b: "str_int port \<noteq> ''-b''"
proof
  assume "str_int port = ''-b''"
  then have "CHR ''b'' \<in> set (str_int port)" by simp
  with str_int_chars [of port] have "CHR ''b'' \<in> set ''-0123456789''" by (rule subsetD)
  then show False by simp
qed

text \<open>
  \<^verbatim>\<open>s.endswith(suf)\<close> says that \<open>s\<close> is some string followed by \<open>suf\<close>.
\<close>

lemma endswith_iff: "endswith s suf \<longleftrightarrow> (\<exists>p. s = p @ suf)"
proof
  assume "endswith s suf"
  then have "s = take (length s - length suf) s @ suf"
    by (metis append_take_drop_id endswith_def)
  then show "\<exists>p. s = p @ suf" ..
next
  assume "\<exists>p. s = p @ suf"
  then show "endswith s suf" by (auto simp: endswith_def)
qed






section \<open>Facts about paths: components\<close>







section \<open>Facts about paths: walking\<close>




text \<open>
  Resolving a path looks at the file system and the working directory only.
\<close>

lemma node_kind_same_fs: "fs w' = fs w \<Longrightarrow> node_kind w' = node_kind w"
  by (rule ext) (simp add: node_kind_def)

lemma walk_same_fs:
  assumes "fs w' = fs w"
  shows "walk w' cs cur = walk w cs cur"
proof -
  have k: "node_kind w' = node_kind w" using assms by (rule node_kind_same_fs)
  show ?thesis by (induction cs arbitrary: cur) (simp_all add: k)
qed


lemma stat_same_fs:
  assumes "fs w' = fs w" and "cwd w' = cwd w"
  shows "stat w' p = stat w p"
proof -
  have k: "node_kind w' = node_kind w" using assms(1) by (rule node_kind_same_fs)
  have s: "start w' p = start w p" using assms(2) by (simp add: start_def)
  show ?thesis
    by (simp add: stat_def resolve_def k s walk_same_fs [OF assms(1)] split: option.splits)
qed

lemma not_exists_not_isdir: "\<not> os_path_exists w p \<Longrightarrow> \<not> os_path_isdir w p"
  by (simp add: os_path_exists_def os_path_isdir_def)




section \<open>Facts about \<^verbatim>\<open>os.path.split\<close>\<close>










section \<open>\<^verbatim>\<open>mkdir\<close> and \<^verbatim>\<open>os.makedirs\<close>\<close>

text \<open>
  Neither touches anything but the file system.
\<close>

lemma os_mkdir_frame:
  assumes "os_mkdir w p = Inr w'"
  shows "environ w' = environ w \<and> dicts w' = dicts w \<and> cwd w' = cwd w
    \<and> mkdir_error w' = mkdir_error w \<and> process w' = process w"
  using assms
  by (auto simp: os_mkdir_def Let_def split: if_splits option.splits)

lemma mkdir_unless_there_frame:
  "environ (snd (mkdir_unless_there w name ok)) = environ w
   \<and> dicts (snd (mkdir_unless_there w name ok)) = dicts w
   \<and> cwd (snd (mkdir_unless_there w name ok)) = cwd w
   \<and> mkdir_error (snd (mkdir_unless_there w name ok)) = mkdir_error w
   \<and> process (snd (mkdir_unless_there w name ok)) = process w"
proof (cases "os_mkdir w name")
  case (Inl e)
  then show ?thesis by (simp add: mkdir_unless_there_def)
next
  case (Inr w')
  with os_mkdir_frame [OF Inr] show ?thesis by (simp add: mkdir_unless_there_def)
qed

lemma os_makedirs_frame:
  "environ (snd (os_makedirs w name ok)) = environ w
   \<and> dicts (snd (os_makedirs w name ok)) = dicts w
   \<and> cwd (snd (os_makedirs w name ok)) = cwd w
   \<and> mkdir_error (snd (os_makedirs w name ok)) = mkdir_error w
   \<and> process (snd (os_makedirs w name ok)) = process w"
proof (induction w name ok rule: os_makedirs.induct)
  case (1 w name ok)
  show ?case
  proof (cases "fst (makedirs_parts name) \<noteq> [] \<and> snd (makedirs_parts name) \<noteq> []
      \<and> \<not> os_path_exists w (fst (makedirs_parts name))")
    case True
    obtain r w1 where m: "os_makedirs w (fst (makedirs_parts name)) ok = (r, w1)"
      by (cases "os_makedirs w (fst (makedirs_parts name)) ok")
    have ih: "environ w1 = environ w \<and> dicts w1 = dicts w \<and> cwd w1 = cwd w
        \<and> mkdir_error w1 = mkdir_error w \<and> process w1 = process w"
      using "1.IH" [OF True] by (simp add: m)
    have eq: "os_makedirs w name ok =
        (if passed r
         then (if snd (makedirs_parts name) = ''.'' then (None, w1)
               else mkdir_unless_there w1 name ok)
         else (r, w1))"
      using True by (subst os_makedirs.simps) (simp add: m)
    show ?thesis
      using ih mkdir_unless_there_frame [of w1 name ok] by (simp add: eq)
  next
    case False
    have "os_makedirs w name ok = mkdir_unless_there w name ok"
      by (subst os_makedirs.simps) (simp only: False if_False)
    then show ?thesis using mkdir_unless_there_frame [of w name ok] by simp
  qed
qed






section \<open>What the two commands do, in one equation each\<close>

text \<open>
  The tools a backup starts, each with the environment it is given: none when the backup
  root could not be made, otherwise \<^verbatim>\<open>pg_dump\<close> once.
\<close>

lemma spawned_backup:
  "spawned (trace (backup w timestamp host port username dbname backup_dir dump_format password)) =
     (case fst (os_makedirs w backup_dir True) of
        Some e \<Rightarrow> []
      | None \<Rightarrow>
          [(backup_cmd host port username dump_format
              (backup_path backup_dir dbname timestamp dump_format) dbname,
            (environ w)(''PGPASSWORD'' \<mapsto> password))])"
proof -
  obtain r w1 where m: "os_makedirs w backup_dir True = (r, w1)"
    by (cases "os_makedirs w backup_dir True")
  have e: "environ w1 = environ w" and p: "process w1 = process w"
    and d: "dicts w1 = dicts w"
    using os_makedirs_frame [of w backup_dir True] by (simp_all add: m)
  show ?thesis
  proof (cases r)
    case None
    show ?thesis
      unfolding backup_def Let_def m None dict_copy_def
      by (simp add: dict_setitem_def deref_def e p d split: proc_result.splits)
  next
    case (Some x)
    show ?thesis
      unfolding backup_def Let_def m Some by simp
  qed
qed

lemma outcome_backup:
  "outcome (backup w timestamp host port username dbname backup_dir dump_format password) =
     (case fst (os_makedirs w backup_dir True) of
        Some e \<Rightarrow> DirectoryCreationError e
      | None \<Rightarrow>
          (case process w
                  (backup_cmd host port username dump_format
                     (backup_path backup_dir dbname timestamp dump_format) dbname)
                  ((environ w)(''PGPASSWORD'' \<mapsto> password)) of
             Exited rc \<Rightarrow>
               if rc = 0 then Success
               else Failure (CalledProcessError rc
                      (backup_cmd host port username dump_format
                         (backup_path backup_dir dbname timestamp dump_format) dbname))
           | LaunchError e \<Rightarrow> Raised (OSError e)))"
proof -
  obtain r w1 where m: "os_makedirs w backup_dir True = (r, w1)"
    by (cases "os_makedirs w backup_dir True")
  have e: "environ w1 = environ w" and p: "process w1 = process w"
    and d: "dicts w1 = dicts w"
    using os_makedirs_frame [of w backup_dir True] by (simp_all add: m)
  show ?thesis
  proof (cases r)
    case None
    show ?thesis
      unfolding backup_def Let_def m None dict_copy_def
      by (simp add: dict_setitem_def deref_def e p d split: proc_result.splits)
  next
    case (Some x)
    show ?thesis
      unfolding backup_def Let_def m Some by simp
  qed
qed

lemma after_backup:
  "after (backup w timestamp host port username dbname backup_dir dump_format password) =
     (case fst (os_makedirs w backup_dir True) of
        Some e \<Rightarrow> snd (os_makedirs w backup_dir True)
      | None \<Rightarrow>
          (snd (os_makedirs w backup_dir True))
            \<lparr>dicts := dicts w @ [(environ w)(''PGPASSWORD'' \<mapsto> password)]\<rparr>)"
proof -
  obtain r w1 where m: "os_makedirs w backup_dir True = (r, w1)"
    by (cases "os_makedirs w backup_dir True")
  have e: "environ w1 = environ w" and p: "process w1 = process w"
    and d: "dicts w1 = dicts w"
    using os_makedirs_frame [of w backup_dir True] by (simp_all add: m)
  show ?thesis
  proof (cases r)
    case None
    show ?thesis
      unfolding backup_def Let_def m None dict_copy_def
      by (simp add: dict_setitem_def deref_def e p d split: proc_result.splits)
  next
    case (Some x)
    show ?thesis
      unfolding backup_def Let_def m Some by simp
  qed
qed

lemma trace_backup:
  "trace (backup w timestamp host port username dbname backup_dir dump_format password) =
     (case fst (os_makedirs w backup_dir True) of
        Some e \<Rightarrow>
          [Makedirs backup_dir True,
           Log ERROR (TextExn ''Failed to create backup directory: '' e)]
      | None \<Rightarrow>
          [Makedirs backup_dir True,
           Log INFO (Text (''Backup directory ensured: '' @ backup_dir)),
           Log DEBUG (Text (''Running command: '' @
             str_join '' '' (backup_cmd host port username dump_format
               (backup_path backup_dir dbname timestamp dump_format) dbname))),
           Spawn (backup_cmd host port username dump_format
                    (backup_path backup_dir dbname timestamp dump_format) dbname)
             ((environ w)(''PGPASSWORD'' \<mapsto> password))] @
          (case process w
                  (backup_cmd host port username dump_format
                     (backup_path backup_dir dbname timestamp dump_format) dbname)
                  ((environ w)(''PGPASSWORD'' \<mapsto> password)) of
             Exited rc \<Rightarrow>
               if rc = 0
               then [Log INFO (Text (''Backup completed successfully. Backup file/directory: '' @
                       backup_path backup_dir dbname timestamp dump_format)),
                     Echo (Text (''Backup completed successfully. Backup file/directory: '' @
                       backup_path backup_dir dbname timestamp dump_format))]
               else [Log ERROR (TextExn ''Backup failed: ''
                       (CalledProcessError rc
                          (backup_cmd host port username dump_format
                             (backup_path backup_dir dbname timestamp dump_format) dbname))),
                     Echo (TextExn ''Backup failed: ''
                       (CalledProcessError rc
                          (backup_cmd host port username dump_format
                             (backup_path backup_dir dbname timestamp dump_format) dbname)))]
           | LaunchError e \<Rightarrow> []))"
proof -
  obtain r w1 where m: "os_makedirs w backup_dir True = (r, w1)"
    by (cases "os_makedirs w backup_dir True")
  have e: "environ w1 = environ w" and p: "process w1 = process w"
    and d: "dicts w1 = dicts w"
    using os_makedirs_frame [of w backup_dir True] by (simp_all add: m)
  show ?thesis
  proof (cases r)
    case None
    show ?thesis
      unfolding backup_def Let_def m None dict_copy_def
      by (simp add: dict_setitem_def deref_def e p d split: proc_result.splits)
  next
    case (Some x)
    show ?thesis
      unfolding backup_def Let_def m Some by simp
  qed
qed


lemma environ_after_backup:
  "environ (after (backup w timestamp host port username dbname backup_dir dump_format password)) =
     environ w"
  using os_makedirs_frame [of w backup_dir True]
  by (cases "fst (os_makedirs w backup_dir True)") (simp_all add: after_backup)

lemma dicts_after_backup:
  "dicts (after (backup w timestamp host port username dbname backup_dir dump_format password)) =
     (case fst (os_makedirs w backup_dir True) of
        Some e \<Rightarrow> dicts w
      | None \<Rightarrow> dicts w @ [(environ w)(''PGPASSWORD'' \<mapsto> password)])"
  using os_makedirs_frame [of w backup_dir True]
  by (cases "fst (os_makedirs w backup_dir True)") (simp_all add: after_backup)




text \<open>
  A restore always starts one tool.
\<close>

lemma restore_cmd_dicts:
  "restore_cmd (w\<lparr>dicts := ds\<rparr>) host port username dbname backup_file =
     restore_cmd w host port username dbname backup_file"
  by (simp add: restore_cmd_def os_path_isdir_def stat_same_fs [of "w\<lparr>dicts := ds\<rparr>" w])

lemma spawned_restore:
  "spawned (trace (restore w host port username dbname backup_file password)) =
     [(restore_cmd w host port username dbname backup_file,
       (environ w)(''PGPASSWORD'' \<mapsto> password))]"
  unfolding restore_def Let_def dict_copy_def
  by (simp add: dict_setitem_def deref_def restore_cmd_dicts split: proc_result.splits)

lemma outcome_restore:
  "outcome (restore w host port username dbname backup_file password) =
     (case process w (restore_cmd w host port username dbname backup_file)
             ((environ w)(''PGPASSWORD'' \<mapsto> password)) of
        Exited rc \<Rightarrow>
          if rc = 0 then Success
          else Failure (CalledProcessError rc
                 (restore_cmd w host port username dbname backup_file))
      | LaunchError e \<Rightarrow> Raised (OSError e))"
  unfolding restore_def Let_def dict_copy_def
  by (simp add: dict_setitem_def deref_def restore_cmd_dicts split: proc_result.splits)

lemma after_restore:
  "after (restore w host port username dbname backup_file password) =
     w\<lparr>dicts := dicts w @ [(environ w)(''PGPASSWORD'' \<mapsto> password)]\<rparr>"
  unfolding restore_def Let_def dict_copy_def
  by (simp add: dict_setitem_def deref_def split: proc_result.splits)

lemma trace_restore:
  "trace (restore w host port username dbname backup_file password) =
     [Log DEBUG (Text (''Running command: '' @
        str_join '' '' (restore_cmd w host port username dbname backup_file))),
      Spawn (restore_cmd w host port username dbname backup_file)
        ((environ w)(''PGPASSWORD'' \<mapsto> password))] @
     (case process w (restore_cmd w host port username dbname backup_file)
             ((environ w)(''PGPASSWORD'' \<mapsto> password)) of
        Exited rc \<Rightarrow>
          if rc = 0
          then [Log INFO (Text ''Restore completed successfully.''),
                Echo (Text ''Restore completed successfully.'')]
          else [Log ERROR (TextExn ''Restore failed: ''
                  (CalledProcessError rc (restore_cmd w host port username dbname backup_file))),
                Echo (TextExn ''Restore failed: ''
                  (CalledProcessError rc (restore_cmd w host port username dbname backup_file)))]
      | LaunchError e \<Rightarrow> [])"
  unfolding restore_def Let_def dict_copy_def
  by (simp add: dict_setitem_def deref_def restore_cmd_dicts split: proc_result.splits)

text \<open>
  Every argument of a started tool is a fixed option or one of the caller's values.
\<close>

lemma backup_args_subset:
  "set (concat (map (tl \<circ> fst) (spawned (trace (backup w timestamp host port username
      dbname backup_dir dump_format password)))))
    \<subseteq> {''-h'', ''-p'', ''-U'', ''-F'', ''-b'', ''-v'', ''-f''} \<union>
      {host, str_int port, username, dump_format,
       backup_path backup_dir dbname timestamp dump_format, dbname}"
proof -
  have "set (tl (backup_cmd host port username dump_format p dbname))
      \<subseteq> {''-h'', ''-p'', ''-U'', ''-F'', ''-b'', ''-v'', ''-f''} \<union>
        {host, str_int port, username, dump_format, p, dbname}" for p
    by (simp add: backup_cmd_def)
  then show ?thesis
    by (cases "fst (os_makedirs w backup_dir True)") (simp_all add: spawned_backup)
qed

lemma restore_args_subset:
  "set (concat (map (tl \<circ> fst) (spawned (trace (restore w host port username dbname
      backup_file password)))))
    \<subseteq> {''-h'', ''-p'', ''-U'', ''-d'', ''-v'', ''-f''} \<union>
      {host, str_int port, username, dbname, backup_file}"
proof -
  have "set (tl (restore_cmd w host port username dbname backup_file))
      \<subseteq> {''-h'', ''-p'', ''-U'', ''-d'', ''-v'', ''-f''} \<union>
        {host, str_int port, username, dbname, backup_file}"
    by (simp add: restore_cmd_def)
  then show ?thesis by (simp add: spawned_restore)
qed

section \<open>The artifact below the backup root\<close>





section \<open>Facts about the example worlds\<close>

lemma makedirs_fresh_backups:
  "fst (os_makedirs (fresh_world rc) ''./backups'' True) = None"
  by code_simp


lemma makedirs_toolless_backups:
  "fst (os_makedirs toolless_world ''./backups'' True) = None"
  by code_simp



lemma missing_dump: "\<not> os_path_exists (fresh_world rc) ''./missing.dump''"
  by code_simp

lemma missing_sql: "\<not> os_path_exists (fresh_world rc) ''./missing.sql''"
  by code_simp

lemma missing_sql_rooted: "\<not> os_path_isdir (rooted_world File) ''./missing.sql''"
  by code_simp

section \<open>The claims\<close>

subsection \<open>C1: which tool restores which artifact\<close>

text \<open>
  Claim C1. Every restore starts exactly one tool, chosen in this order: when the path is a
  directory, \<^verbatim>\<open>pg_restore\<close> with the host, port, user name, target database and verbose
  options and the directory as its only positional argument; otherwise, when the path ends
  with \<^verbatim>\<open>.sql\<close> (the test the source makes for the extension), \<^verbatim>\<open>psql\<close> with the host, port,
  user name and target database options and the file behind \<^verbatim>\<open>-f\<close>, without \<^verbatim>\<open>-v\<close>;
  otherwise \<^verbatim>\<open>pg_restore\<close> with the same options as for a directory and the file as the last
  argument.
\<close>

theorem restore_tool_selection:
  "map fst (spawned (trace (restore w host port username dbname backup_file password))) =
     [if os_path_isdir w backup_file
      then ''pg_restore'' #
             [''-h'', host, ''-p'', str_int port, ''-U'', username, ''-d'', dbname, ''-v'',
              backup_file]
      else if endswith backup_file ''.sql''
      then ''psql'' #
             [''-h'', host, ''-p'', str_int port, ''-U'', username, ''-d'', dbname,
              ''-f'', backup_file]
      else ''pg_restore'' #
             [''-h'', host, ''-p'', str_int port, ''-U'', username, ''-d'', dbname, ''-v'',
              backup_file]]"
  by (simp add: spawned_restore restore_cmd_def)

subsection \<open>C2: scenario A\<close>

text \<open>
  Claim C2. For host \<^verbatim>\<open>localhost\<close>, port 5432, user \<^verbatim>\<open>alice\<close>, database \<^verbatim>\<open>orders\<close> and the
  custom format \<^verbatim>\<open>c\<close>, the command is the program \<^verbatim>\<open>pg_dump\<close> with the arguments
  \<^verbatim>\<open>-h localhost -p 5432 -U alice -F c -b -v -f <path> orders\<close>, for every artifact path; and
  a backup into \<^verbatim>\<open>./backups\<close> at time stamp \<^verbatim>\<open>20240101_120000\<close> starts exactly that command
  with the path \<^verbatim>\<open>./backups/backup_orders_20240101_120000.dump\<close>, once the backup root is there.
\<close>

theorem scenario_A_backup_command:
  "backup_cmd ''localhost'' 5432 ''alice'' ''c'' path ''orders'' =
     ''pg_dump'' #
       [''-h'', ''localhost'', ''-p'', ''5432'', ''-U'', ''alice'', ''-F'', ''c'', ''-b'', ''-v'',
        ''-f'', path, ''orders'']
   \<and> map fst (spawned (trace (backup w ''20240101_120000'' ''localhost'' 5432 ''alice''
          ''orders'' ''./backups'' ''c'' password))) =
       (case fst (os_makedirs w ''./backups'' True) of
          Some e \<Rightarrow> []
        | None \<Rightarrow>
            [''pg_dump'' #
               [''-h'', ''localhost'', ''-p'', ''5432'', ''-U'', ''alice'', ''-F'', ''c'', ''-b'',
                ''-v'', ''-f'', ''./backups/backup_orders_20240101_120000.dump'', ''orders'']])"
proof -
  have p: "backup_path ''./backups'' ''orders'' ''20240101_120000'' ''c'' =
      ''./backups/backup_orders_20240101_120000.dump''"
    by (simp add: backup_path_def file_ext_def os_path_join_def startswith_def endswith_def)
  have c: "backup_cmd ''localhost'' 5432 ''alice'' ''c'' path ''orders'' =
     [''pg_dump'', ''-h'', ''localhost'', ''-p'', ''5432'', ''-U'', ''alice'', ''-F'', ''c'', ''-b'',
      ''-v'', ''-f'', path, ''orders'']" for path
    by (simp add: backup_cmd_def str_int_5432)
  show ?thesis
    by (simp add: spawned_backup p c split: option.splits)
qed

subsection \<open>C3: the password and the argument list\<close>

text \<open>
  Claim C3, as stated, says that the password string never occurs among the arguments. The
  arguments hold the caller's host, port, user name, database name and path, so a password
  equal to one of them does occur there: here the user \<^verbatim>\<open>alice\<close> has the password
  \<^verbatim>\<open>alice\<close>, and \<^verbatim>\<open>alice\<close> is an argument of the \<^verbatim>\<open>pg_dump\<close> that is started.
\<close>

theorem password_in_arguments_counterexample:
  "''alice'' \<in> set (concat (map (tl \<circ> fst) (spawned (trace
      (backup (fresh_world 0) ''20240101_120000'' ''localhost'' 5432 ''alice'' ''orders''
         ''./backups'' ''c'' ''alice'')))))"
  by (simp add: spawned_backup makedirs_fresh_backups backup_cmd_def)

text \<open>
  Claim C3, amended. The commands a backup or a restore starts are the same for every
  password. Every argument is one of the fixed options or the caller's host, port numeral,
  user name, format letter, artifact path or database name, so the password is among the
  arguments only when it equals one of those. The password reaches the tool as the value of
  \<^verbatim>\<open>PGPASSWORD\<close> in the environment passed to it, which is \<^verbatim>\<open>os.environ\<close> with that one
  variable set: a restore starts its tool with exactly that environment, and so does a
  backup whenever the backup root could be made.
\<close>

theorem password_only_in_environment:
  "map fst (spawned (trace (backup w timestamp host port username dbname backup_dir
       dump_format password))) =
   map fst (spawned (trace (backup w timestamp host port username dbname backup_dir
       dump_format password')))
   \<and> map fst (spawned (trace (restore w host port username dbname backup_file password))) =
     map fst (spawned (trace (restore w host port username dbname backup_file password')))
   \<and> set (concat (map (tl \<circ> fst) (spawned (trace (backup w timestamp host port username
         dbname backup_dir dump_format password)))))
       \<subseteq> {''-h'', ''-p'', ''-U'', ''-F'', ''-b'', ''-v'', ''-f''} \<union>
         {host, str_int port, username, dump_format,
          backup_path backup_dir dbname timestamp dump_format, dbname}
   \<and> set (concat (map (tl \<circ> fst) (spawned (trace (restore w host port username dbname
         backup_file password)))))
       \<subseteq> {''-h'', ''-p'', ''-U'', ''-d'', ''-v'', ''-f''} \<union>
         {host, str_int port, username, dbname, backup_file}
   \<and> map snd (spawned (trace (backup w timestamp host port username dbname backup_dir
         dump_format password))) =
       (case fst (os_makedirs w backup_dir True) of
          Some e \<Rightarrow> []
        | None \<Rightarrow> [(environ w)(''PGPASSWORD'' \<mapsto> password)])
   \<and> map snd (spawned (trace (restore w host port username dbname backup_file password))) =
       [(environ w)(''PGPASSWORD'' \<mapsto> password)]"
proof -
  have 1: "map fst (spawned (trace (backup w timestamp host port username dbname backup_dir
       dump_format password))) =
     map fst (spawned (trace (backup w timestamp host port username dbname backup_dir
       dump_format password')))"
    by (cases "fst (os_makedirs w backup_dir True)") (simp_all add: spawned_backup)
  have 2: "map fst (spawned (trace (restore w host port username dbname backup_file password))) =
     map fst (spawned (trace (restore w host port username dbname backup_file password')))"
    by (simp add: spawned_restore)
  have 5: "map snd (spawned (trace (backup w timestamp host port username dbname backup_dir
         dump_format password))) =
       (case fst (os_makedirs w backup_dir True) of
          Some e \<Rightarrow> []
        | None \<Rightarrow> [(environ w)(''PGPASSWORD'' \<mapsto> password)])"
    by (cases "fst (os_makedirs w backup_dir True)") (simp_all add: spawned_backup)
  have 6: "map snd (spawned (trace (restore w host port username dbname backup_file password))) =
       [(environ w)(''PGPASSWORD'' \<mapsto> password)]"
    by (simp add: spawned_restore)
  from 1 2 backup_args_subset restore_args_subset 5 6 show ?thesis by (intro conjI)
qed

subsection \<open>C4: the large-object option\<close>

text \<open>
  Claim C4, as stated, says that the argument sequence contains \<^verbatim>\<open>-b\<close> only when the format
  is not \<^verbatim>\<open>d\<close>. The arguments also hold the caller's own strings: a database named \<^verbatim>\<open>-b\<close>
  puts that string among the arguments of a backup in the directory format.
\<close>

theorem large_object_flag_counterexample:
  "''-b'' \<in> set (concat (map (tl \<circ> fst) (spawned (trace
      (backup (fresh_world 0) ''20240101_120000'' ''localhost'' 5432 ''alice'' ''-b''
         ''./backups'' ''d'' ''s3cret'')))))"
  by (simp add: spawned_backup makedirs_fresh_backups backup_cmd_def)

text \<open>
  Claim C4, amended. For every format the backup command is one fixed sequence, in which the
  option \<^verbatim>\<open>-b\<close> stands right after the format letter exactly when the format is not \<^verbatim>\<open>d\<close>;
  for \<^verbatim>\<open>d\<close> the option is left out and nothing else changes. Counted from the program name,
  the place after the format letter is index 9: it holds \<^verbatim>\<open>-b\<close> if and only if the format
  is not \<^verbatim>\<open>d\<close>. And when none of the caller's host, user name, format, path and database
  name is itself the string \<^verbatim>\<open>-b\<close>, the arguments contain \<^verbatim>\<open>-b\<close> if and only if the format
  is not \<^verbatim>\<open>d\<close>.
\<close>

theorem large_object_flag:
  "backup_cmd host port username dump_format path dbname =
     [''pg_dump'', ''-h'', host, ''-p'', str_int port, ''-U'', username, ''-F'', dump_format]
     @ (if dump_format = ''d'' then [] else [''-b''])
     @ [''-v'', ''-f'', path, dbname]
   \<and> (backup_cmd host port username dump_format path dbname ! 9 = ''-b'')
       = (dump_format \<noteq> ''d'')
   \<and> (''-b'' \<notin> {host, username, dump_format, path, dbname} \<longrightarrow>
        (''-b'' \<in> set (tl (backup_cmd host port username dump_format path dbname)))
          = (dump_format \<noteq> ''d''))"
  using str_int_not_b [of port] by (auto simp: backup_cmd_def)

text \<open>
  The formats \<^verbatim>\<open>c\<close> and \<^verbatim>\<open>d\<close> with no caller string equal to \<^verbatim>\<open>-b\<close>.
\<close>

theorem large_object_flag_witness:
  "''-b'' \<in> set (tl (backup_cmd ''localhost'' 5432 ''alice'' ''c'' ''./x.dump'' ''orders''))
   \<and> ''-b'' \<notin> set (tl (backup_cmd ''localhost'' 5432 ''alice'' ''d'' ''./x'' ''orders''))"
proof -
  have 1: "''-b'' \<notin> {''localhost'', ''alice'', ''c'', ''./x.dump'', ''orders''}" by simp
  have 2: "''-b'' \<notin> {''localhost'', ''alice'', ''d'', ''./x'', ''orders''}" by simp
  note c = large_object_flag [of "''localhost''" 5432 "''alice''" "''c''" "''./x.dump''" "''orders''"]
  note d = large_object_flag [of "''localhost''" 5432 "''alice''" "''d''" "''./x''" "''orders''"]
  from mp [OF conjunct2 [OF conjunct2 [OF c]] 1]
  have a: "''-b'' \<in> set (tl (backup_cmd ''localhost'' 5432 ''alice'' ''c'' ''./x.dump'' ''orders''))"
    by simp
  from mp [OF conjunct2 [OF conjunct2 [OF d]] 2]
  have b: "''-b'' \<notin> set (tl (backup_cmd ''localhost'' 5432 ''alice'' ''d'' ''./x'' ''orders''))"
    by simp
  from a b show ?thesis ..
qed

subsection \<open>C5: the artifact path\<close>




subsection \<open>C6: a restore from a path that does not exist\<close>

text \<open>
  Claim C6, as stated, says that a restore from a missing path stops before any tool is
  started. The source never asks whether the path exists: with nothing but the working
  directory on the file system, the restore of \<^verbatim>\<open>./missing.dump\<close> starts \<^verbatim>\<open>pg_restore\<close>, and
  the failure that is reported is the tool's return code.
\<close>

theorem missing_artifact_counterexample:
  "\<not> os_path_exists (fresh_world 1) ''./missing.dump''
   \<and> map fst (spawned (trace (restore (fresh_world 1) ''localhost'' 5432 ''alice'' ''orders''
          ''./missing.dump'' ''s3cret''))) =
       [[''pg_restore'', ''-h'', ''localhost'', ''-p'', ''5432'', ''-U'', ''alice'',
         ''-d'', ''orders'', ''-v'', ''./missing.dump'']]
   \<and> outcome (restore (fresh_world 1) ''localhost'' 5432 ''alice'' ''orders''
          ''./missing.dump'' ''s3cret'') =
       Failure (CalledProcessError 1
         [''pg_restore'', ''-h'', ''localhost'', ''-p'', ''5432'', ''-U'', ''alice'',
          ''-d'', ''orders'', ''-v'', ''./missing.dump''])"
proof -
  have p: "process (fresh_world 1) cmd env = Exited 1" for cmd env
    by (simp add: fresh_world_def)
  show ?thesis
    using not_exists_not_isdir [OF missing_dump [of 1]]
    by (simp add: missing_dump spawned_restore outcome_restore restore_cmd_def p endswith_def
        str_int_5432)
qed

text \<open>
  Claim C6, amended. A restore from a path that does not exist is not stopped: the path is
  treated like a file, \<^verbatim>\<open>psql\<close> (when it ends with \<^verbatim>\<open>.sql\<close>) or \<^verbatim>\<open>pg_restore\<close> is started
  on it, and the result of the restore is whatever comes of that tool.
\<close>

theorem missing_artifact_is_handed_to_the_tool:
  assumes "\<not> os_path_exists w backup_file"
  shows "map fst (spawned (trace (restore w host port username dbname backup_file password))) =
       [if endswith backup_file ''.sql''
        then [''psql'', ''-h'', host, ''-p'', str_int port, ''-U'', username, ''-d'', dbname,
              ''-f'', backup_file]
        else [''pg_restore'', ''-h'', host, ''-p'', str_int port, ''-U'', username,
              ''-d'', dbname, ''-v'', backup_file]]
     \<and> outcome (restore w host port username dbname backup_file password) =
       (case process w (restore_cmd w host port username dbname backup_file)
               ((environ w)(''PGPASSWORD'' \<mapsto> password)) of
          Exited rc \<Rightarrow>
            if rc = 0 then Success
            else Failure (CalledProcessError rc
                   (restore_cmd w host port username dbname backup_file))
        | LaunchError e \<Rightarrow> Raised (OSError e))"
  using not_exists_not_isdir [OF assms]
  by (simp add: spawned_restore outcome_restore restore_cmd_def)

text \<open>
  Restoring \<^verbatim>\<open>./missing.sql\<close> starts \<^verbatim>\<open>psql\<close>.
\<close>

theorem missing_artifact_is_handed_to_the_tool_witness:
  "\<not> os_path_exists (fresh_world 1) ''./missing.sql''
   \<and> map fst (spawned (trace (restore (fresh_world 1) ''localhost'' 5432 ''alice'' ''orders''
          ''./missing.sql'' ''s3cret''))) =
       [[''psql'', ''-h'', ''localhost'', ''-p'', ''5432'', ''-U'', ''alice'',
         ''-d'', ''orders'', ''-f'', ''./missing.sql'']]"
proof -
  have h: "\<not> os_path_exists (fresh_world 1) ''./missing.sql''" by (rule missing_sql)
  show ?thesis
    using h missing_artifact_is_handed_to_the_tool [OF h, of "''localhost''" 5432 "''alice''"
        "''orders''" "''s3cret''"]
    by (simp add: endswith_def str_int_5432)
qed

subsection \<open>C7: return codes and results\<close>

text \<open>
  Claim C7, as stated, includes the tool that cannot be started. Both commands catch
  \<^verbatim>\<open>subprocess.CalledProcessError\<close> only, so the \<^verbatim>\<open>OSError\<close> of a tool that is not installed
  is not turned into the reported failure: it leaves the command as an exception, and
  nothing is logged or echoed after the attempt to start the tool.
\<close>

theorem launch_failure_counterexample:
  "outcome (backup toolless_world ''20240101_120000'' ''localhost'' 5432 ''alice'' ''orders''
      ''./backups'' ''c'' ''s3cret'') =
     Raised (OSError ''[Errno 2] No such file or directory'')
   \<and> drop 4 (trace (backup toolless_world ''20240101_120000'' ''localhost'' 5432 ''alice''
      ''orders'' ''./backups'' ''c'' ''s3cret'')) = []
   \<and> outcome (restore toolless_world ''localhost'' 5432 ''alice'' ''orders'' ''./dump.sql''
      ''s3cret'') =
     Raised (OSError ''[Errno 2] No such file or directory'')
   \<and> drop 2 (trace (restore toolless_world ''localhost'' 5432 ''alice'' ''orders'' ''./dump.sql''
      ''s3cret'')) = []"
proof -
  have p: "process toolless_world cmd env = LaunchError ''[Errno 2] No such file or directory''"
    for cmd env
    by (simp add: toolless_world_def)
  show ?thesis
    by (simp add: outcome_backup outcome_restore trace_backup trace_restore
        makedirs_toolless_backups p)
qed

text \<open>
  Claim C7, amended. For every command that was started, return code 0 gives \<open>Success\<close>,
  logged and echoed as completed, and every other return code gives \<open>Failure\<close> carrying
  that return code (and the command), logged and echoed as failed with the exception that
  holds the return code; in backup and in restore.
\<close>

theorem exit_status_outcome:
  "(let cmd = backup_cmd host port username dump_format
                (backup_path backup_dir dbname timestamp dump_format) dbname;
        r = backup w timestamp host port username dbname backup_dir dump_format password;
        finished = ''Backup completed successfully. Backup file/directory: '' @
                   backup_path backup_dir dbname timestamp dump_format
    in fst (os_makedirs w backup_dir True) = None \<and>
       process w cmd ((environ w)(''PGPASSWORD'' \<mapsto> password)) = Exited rc
       \<longrightarrow> outcome r = (if rc = 0 then Success else Failure (CalledProcessError rc cmd))
         \<and> drop 4 (trace r) =
             (if rc = 0 then [Log INFO (Text finished), Echo (Text finished)]
              else [Log ERROR (TextExn ''Backup failed: '' (CalledProcessError rc cmd)),
                    Echo (TextExn ''Backup failed: '' (CalledProcessError rc cmd))]))
   \<and> (let cmd = restore_cmd w host port username dbname backup_file;
          r = restore w host port username dbname backup_file password
      in process w cmd ((environ w)(''PGPASSWORD'' \<mapsto> password)) = Exited rc
         \<longrightarrow> outcome r = (if rc = 0 then Success else Failure (CalledProcessError rc cmd))
           \<and> drop 2 (trace r) =
               (if rc = 0
                then [Log INFO (Text ''Restore completed successfully.''),
                      Echo (Text ''Restore completed successfully.'')]
                else [Log ERROR (TextExn ''Restore failed: '' (CalledProcessError rc cmd)),
                      Echo (TextExn ''Restore failed: '' (CalledProcessError rc cmd))]))"
  by (simp add: Let_def outcome_backup outcome_restore trace_backup trace_restore
      del: fun_upd_apply)

text \<open>
  Return codes 0, 3 and -9 (a tool killed by a signal).
\<close>

theorem exit_status_outcome_witness:
  "outcome (backup (fresh_world 0) ''20240101_120000'' ''localhost'' 5432 ''alice'' ''orders''
      ''./backups'' ''c'' ''s3cret'') = Success
   \<and> outcome (restore (fresh_world 0) ''localhost'' 5432 ''alice'' ''orders'' ''./dump.sql''
      ''s3cret'') = Success
   \<and> drop 2 (trace (restore (fresh_world 0) ''localhost'' 5432 ''alice'' ''orders''
      ''./dump.sql'' ''s3cret'')) =
     [Log INFO (Text ''Restore completed successfully.''),
      Echo (Text ''Restore completed successfully.'')]
   \<and> outcome (backup (fresh_world 3) ''20240101_120000'' ''localhost'' 5432 ''alice'' ''orders''
      ''./backups'' ''d'' ''s3cret'') =
     Failure (CalledProcessError 3
       [''pg_dump'', ''-h'', ''localhost'', ''-p'', ''5432'', ''-U'', ''alice'', ''-F'', ''d'',
        ''-v'', ''-f'', ''./backups/backup_orders_20240101_120000'', ''orders''])
   \<and> outcome (restore (fresh_world (- 9)) ''localhost'' 5432 ''alice'' ''orders''
      ''./dump.tar'' ''s3cret'') =
     Failure (CalledProcessError (- 9)
       [''pg_restore'', ''-h'', ''localhost'', ''-p'', ''5432'', ''-U'', ''alice'',
        ''-d'', ''orders'', ''-v'', ''./dump.tar''])"
proof -
  have p: "process (fresh_world rc) cmd env = Exited rc" for rc cmd env
    by (simp add: fresh_world_def)
  have c: "backup_cmd ''localhost'' 5432 ''alice'' ''d''
       (backup_path ''./backups'' ''orders'' ''20240101_120000'' ''d'') ''orders'' =
     [''pg_dump'', ''-h'', ''localhost'', ''-p'', ''5432'', ''-U'', ''alice'', ''-F'', ''d'',
      ''-v'', ''-f'', ''./backups/backup_orders_20240101_120000'', ''orders'']"
    by (simp add: backup_cmd_def backup_path_def os_path_join_def startswith_def endswith_def
        str_int_5432)
  have n: "\<not> os_path_isdir (fresh_world (- 9)) ''./dump.tar''" by code_simp
  have r: "restore_cmd (fresh_world (- 9)) ''localhost'' 5432 ''alice'' ''orders'' ''./dump.tar'' =
     [''pg_restore'', ''-h'', ''localhost'', ''-p'', ''5432'', ''-U'', ''alice'',
      ''-d'', ''orders'', ''-v'', ''./dump.tar'']"
    using n by (simp add: restore_cmd_def endswith_def str_int_5432)
  show ?thesis
    using exit_status_outcome [of "''localhost''" 5432 "''alice''" "''c''" "''./backups''"
        "''orders''" "''20240101_120000''" "fresh_world 0" "''s3cret''" 0 "''./dump.sql''"]
      exit_status_outcome [of "''localhost''" 5432 "''alice''" "''d''" "''./backups''"
        "''orders''" "''20240101_120000''" "fresh_world 3" "''s3cret''" 3 "''./dump.tar''"]
      exit_status_outcome [of "''localhost''" 5432 "''alice''" "''d''" "''./backups''"
        "''orders''" "''20240101_120000''" "fresh_world (- 9)" "''s3cret''" "- 9"
        "''./dump.tar''"]
    by (simp add: Let_def makedirs_fresh_backups p c r del: fun_upd_apply)
qed

subsection \<open>C8: making the backup root\<close>




subsection \<open>C9: the environment of the tool\<close>

text \<open>
  Claim C9. A restore starts its tool with an environment that maps \<^verbatim>\<open>PGPASSWORD\<close> to the
  password and every other variable to what \<^verbatim>\<open>os.environ\<close> holds; a backup does the same
  whenever the backup root could be made, and starts nothing otherwise. That environment is
  a new dictionary: it is the one dictionary allocated by the command, behind all that
  existed before, and \<^verbatim>\<open>os.environ\<close> itself is the same after the command as before.
\<close>

theorem credential_injection:
  "map (\<lambda>(cmd, env). env k)
     (spawned (trace (restore w host port username dbname backup_file password))) =
     [if k = ''PGPASSWORD'' then Some password else environ w k]
   \<and> map (\<lambda>(cmd, env). env k)
       (spawned (trace (backup w timestamp host port username dbname backup_dir dump_format
          password))) =
     (case fst (os_makedirs w backup_dir True) of
        Some e \<Rightarrow> []
      | None \<Rightarrow> [if k = ''PGPASSWORD'' then Some password else environ w k])
   \<and> dicts (after (restore w host port username dbname backup_file password)) =
     dicts w @ [(environ w)(''PGPASSWORD'' \<mapsto> password)]
   \<and> dicts (after (backup w timestamp host port username dbname backup_dir dump_format
        password)) =
     (case fst (os_makedirs w backup_dir True) of
        Some e \<Rightarrow> dicts w
      | None \<Rightarrow> dicts w @ [(environ w)(''PGPASSWORD'' \<mapsto> password)])
   \<and> environ (after (restore w host port username dbname backup_file password)) = environ w
   \<and> environ (after (backup w timestamp host port username dbname backup_dir dump_format
        password)) = environ w"
proof -
  have 1: "map (\<lambda>(cmd, env). env k)
     (spawned (trace (restore w host port username dbname backup_file password))) =
     [if k = ''PGPASSWORD'' then Some password else environ w k]"
    by (simp add: spawned_restore)
  have 2: "map (\<lambda>(cmd, env). env k)
       (spawned (trace (backup w timestamp host port username dbname backup_dir dump_format
          password))) =
     (case fst (os_makedirs w backup_dir True) of
        Some e \<Rightarrow> []
      | None \<Rightarrow> [if k = ''PGPASSWORD'' then Some password else environ w k])"
    by (cases "fst (os_makedirs w backup_dir True)") (simp_all add: spawned_backup)
  have 3: "dicts (after (restore w host port username dbname backup_file password)) =
     dicts w @ [(environ w)(''PGPASSWORD'' \<mapsto> password)]"
    by (simp add: after_restore)
  have 5: "environ (after (restore w host port username dbname backup_file password)) = environ w"
    by (simp add: after_restore)
  from 1 2 3 dicts_after_backup 5 environ_after_backup show ?thesis by (intro conjI)
qed

subsection \<open>C10: a path that is not a directory\<close>

text \<open>
  Claim C10. When the path is not a directory, the tool is \<^verbatim>\<open>psql\<close> if the path string is
  some string followed by \<^verbatim>\<open>.sql\<close> and \<^verbatim>\<open>pg_restore\<close> otherwise. Nothing else of the file
  system enters: any other world in which the path is not a directory gives the same
  command, and a path that does not exist is such a path.
\<close>

theorem restore_file_choice_by_suffix:
  assumes "\<not> os_path_isdir w backup_file"
  shows "map fst (spawned (trace (restore w host port username dbname backup_file password))) =
       [if \<exists>stem. backup_file = stem @ ''.sql''
        then [''psql'', ''-h'', host, ''-p'', str_int port, ''-U'', username, ''-d'', dbname,
              ''-f'', backup_file]
        else [''pg_restore'', ''-h'', host, ''-p'', str_int port, ''-U'', username,
              ''-d'', dbname, ''-v'', backup_file]]
     \<and> (\<not> os_path_isdir w' backup_file \<longrightarrow>
          restore_cmd w' host port username dbname backup_file =
          restore_cmd w host port username dbname backup_file)
     \<and> (\<not> os_path_exists w' backup_file \<longrightarrow> \<not> os_path_isdir w' backup_file)"
  using assms
  by (simp add: spawned_restore restore_cmd_def endswith_iff not_exists_not_isdir)

text \<open>
  \<^verbatim>\<open>./missing.sql\<close> where only the working directory is there, and where a plain file
  \<^verbatim>\<open>./backups\<close> is there too.
\<close>

theorem restore_file_choice_by_suffix_witness:
  "\<not> os_path_isdir (fresh_world 1) ''./missing.sql''
   \<and> \<not> os_path_exists (fresh_world 1) ''./missing.sql''
   \<and> map fst (spawned (trace (restore (fresh_world 1) ''localhost'' 5432 ''alice'' ''orders''
        ''./missing.sql'' ''s3cret''))) =
      [[''psql'', ''-h'', ''localhost'', ''-p'', ''5432'', ''-U'', ''alice'', ''-d'', ''orders'',
        ''-f'', ''./missing.sql'']]
   \<and> restore_cmd (rooted_world File) ''localhost'' 5432 ''alice'' ''orders'' ''./missing.sql'' =
      restore_cmd (fresh_world 1) ''localhost'' 5432 ''alice'' ''orders'' ''./missing.sql''"
proof -
  have n: "\<not> os_path_exists (fresh_world 1) ''./missing.sql''" by (rule missing_sql)
  have h: "\<not> os_path_isdir (fresh_world 1) ''./missing.sql''"
    using n by (rule not_exists_not_isdir)
  have h': "\<not> os_path_isdir (rooted_world File) ''./missing.sql''" by (rule missing_sql_rooted)
  have s: "\<exists>stem. ''./missing.sql'' = stem @ ''.sql''"
    by (rule exI [of _ "''./missing''"]) simp
  show ?thesis
    using h h' n s restore_file_choice_by_suffix [OF h, of "''localhost''" 5432 "''alice''"
        "''orders''" "''s3cret''" "rooted_world File"]
    by (simp add: str_int_5432)
qed

section \<open>Further properties\<close>

subsection \<open>The password as a string among the arguments\<close>

text \<open>
  A password that differs from every fixed option and from the caller's host, port numeral,
  user name, format letter, database name and paths is not among the arguments of the tool
  that a backup or a restore starts.
\<close>

theorem password_absent_when_distinct:
  assumes "password \<notin> {''-h'', ''-p'', ''-U'', ''-F'', ''-b'', ''-v'', ''-f''} \<union>
      {host, str_int port, username, dump_format,
       backup_path backup_dir dbname timestamp dump_format, dbname}"
    and "password \<notin> {''-h'', ''-p'', ''-U'', ''-d'', ''-v'', ''-f''} \<union>
      {host, str_int port, username, dbname, backup_file}"
  shows "password \<notin> set (concat (map (tl \<circ> fst) (spawned (trace (backup w timestamp host
           port username dbname backup_dir dump_format password)))))
       \<and> password \<notin> set (concat (map (tl \<circ> fst) (spawned (trace (restore w host port
           username dbname backup_file password)))))"
proof
  show "password \<notin> set (concat (map (tl \<circ> fst) (spawned (trace (backup w timestamp host
           port username dbname backup_dir dump_format password)))))"
  proof
    assume "password \<in> set (concat (map (tl \<circ> fst) (spawned (trace (backup w timestamp host
           port username dbname backup_dir dump_format password)))))"
    then have "password \<in> {''-h'', ''-p'', ''-U'', ''-F'', ''-b'', ''-v'', ''-f''} \<union>
      {host, str_int port, username, dump_format,
       backup_path backup_dir dbname timestamp dump_format, dbname}"
      using backup_args_subset by (rule rev_subsetD)
    with assms(1) show False by (rule notE)
  qed
  show "password \<notin> set (concat (map (tl \<circ> fst) (spawned (trace (restore w host port
           username dbname backup_file password)))))"
  proof
    assume "password \<in> set (concat (map (tl \<circ> fst) (spawned (trace (restore w host port
           username dbname backup_file password)))))"
    then have "password \<in> {''-h'', ''-p'', ''-U'', ''-d'', ''-v'', ''-f''} \<union>
      {host, str_int port, username, dbname, backup_file}"
      using restore_args_subset by (rule rev_subsetD)
    with assms(2) show False by (rule notE)
  qed
qed

text \<open>
  The password \<^verbatim>\<open>s3cret\<close> in scenario A and in the restore of \<^verbatim>\<open>./dump.sql\<close>.
\<close>

theorem password_absent_when_distinct_witness:
  "''s3cret'' \<notin> set (concat (map (tl \<circ> fst) (spawned (trace (backup (fresh_world 0)
       ''20240101_120000'' ''localhost'' 5432 ''alice'' ''orders'' ''./backups'' ''c''
       ''s3cret'')))))
   \<and> ''s3cret'' \<notin> set (concat (map (tl \<circ> fst) (spawned (trace (restore (fresh_world 0)
       ''localhost'' 5432 ''alice'' ''orders'' ''./dump.sql'' ''s3cret'')))))
   \<and> spawned (trace (backup (fresh_world 0) ''20240101_120000'' ''localhost'' 5432 ''alice''
       ''orders'' ''./backups'' ''c'' ''s3cret'')) \<noteq> []"
proof -
  have p: "backup_path ''./backups'' ''orders'' ''20240101_120000'' ''c'' =
      ''./backups/backup_orders_20240101_120000.dump''"
    by (simp add: backup_path_def file_ext_def os_path_join_def startswith_def endswith_def)
  have 1: "''s3cret'' \<notin> {''-h'', ''-p'', ''-U'', ''-F'', ''-b'', ''-v'', ''-f''} \<union>
      {''localhost'', str_int 5432, ''alice'', ''c'',
       backup_path ''./backups'' ''orders'' ''20240101_120000'' ''c'', ''orders''}"
    by (simp add: p str_int_5432)
  have 2: "''s3cret'' \<notin> {''-h'', ''-p'', ''-U'', ''-d'', ''-v'', ''-f''} \<union>
      {''localhost'', str_int 5432, ''alice'', ''orders'', ''./dump.sql''}"
    by (simp add: str_int_5432)
  have 3: "spawned (trace (backup (fresh_world 0) ''20240101_120000'' ''localhost'' 5432 ''alice''
       ''orders'' ''./backups'' ''c'' ''s3cret'')) \<noteq> []"
    by (simp add: spawned_backup makedirs_fresh_backups)
  note w = password_absent_when_distinct [OF 1 2, of "fresh_world 0"]
  from conjunct1 [OF w] conjunct2 [OF w] 3 show ?thesis by (intro conjI)
qed

end
